theory Spec2Isabelle
  imports Complex_Main "HOL-Library.Word"
begin

section \<open>Basic types\<close>

text \<open>
  \<^verbatim>\<open>time.Duration\<close> is a signed count of nanoseconds. The package only stores, compares
  and hands on durations (\<^verbatim>\<open>co.Interval < 0\<close>, \<^verbatim>\<open>co.Interval == 0\<close>,
  \<^verbatim>\<open>d == backoff.Stop\<close>); it never adds or multiplies them, so a duration is an
  integer here. The attempt index \<^verbatim>\<open>i\<close> is a Go \<^verbatim>\<open>int\<close> that is incremented
  (\<^verbatim>\<open>i++\<close>) and wraps around: it is the 64-bit word of the 64-bit platforms, read as
  a signed number by \<open>sint\<close>. \<^verbatim>\<open>MaxRetries\<close> is a \<^verbatim>\<open>uint64\<close>.
\<close>

type_synonym Duration = int
type_synonym uint64 = "64 word"
type_synonym go_int = "64 word"

definition Second :: Duration where
  "Second = 1000000000"

definition Millisecond :: Duration where
  "Millisecond = 1000000"

definition Minute :: Duration where
  "Minute = 60 * Second"

section \<open>The environment of one iteration\<close>

text \<open>
  What an iteration reads from outside is given by oracles indexed by logical time: the
  number \<open>k\<close> of calls of the next-interval operation made before. A clock answers with
  the wall-clock time elapsed since the strategy instance was created; a cancellation
  signal (\<^verbatim>\<open>context.Context\<close>) answers whether it is observed as fired at a moment;
  \<^verbatim>\<open>rand.Float64\<close> answers with a number in \<open>[0, 1)\<close>. The default clock and the random
  source belong to the world the iteration runs in.
\<close>

type_synonym Clock = "nat \<Rightarrow> Duration"

datatype moment = AtNextBackOff nat | DuringWait nat

type_synonym Context = "moment \<Rightarrow> bool"

record World =
  SystemClock :: Clock
  Float64 :: "nat \<Rightarrow> rat"

definition Background :: Context where
  "Background m = False"

section \<open>The strategies of github.com/cenkalti/backoff/v4\<close>

text \<open>
  Modelled from the spec: the sentinel \<^verbatim>\<open>backoff.Stop\<close> of the dependency, which is not
  under src/. The next-interval operation "returns either a non-negative duration or a
  sentinel stop value"; the sentinel is the duration \<open>-1\<close>.
\<close>

definition backoff_Stop :: Duration where
  "backoff_Stop = -1"

text \<open>
  Modelled from the spec: \<^verbatim>\<open>backoff.ExponentialBackOff\<close> and its defaults, which are not
  under src/. The fields are those of the exponential policy (section 3) and of the test
  \<^verbatim>\<open>TestNewExponentialOption\<close>; \<open>currentInterval\<close> and the one-way latch \<open>exhausted\<close>
  are the internal state of section 4.2. The spec names the default multiplier 1.5; the
  other defaults are those the dependency documents (500ms, 0.5, 60s, 15min).
  \<^verbatim>\<open>float64\<close> is \<open>rat\<close> here: exact arithmetic.
\<close>

record ExponentialBackOff =
  InitialInterval :: Duration
  RandomizationFactor :: rat
  Multiplier :: rat
  MaxInterval :: Duration
  MaxElapsedTime :: Duration
  StopAfter :: Duration
  Clock :: Clock
  currentInterval :: Duration
  exhausted :: bool

definition DefaultInitialInterval :: Duration where
  "DefaultInitialInterval = 500 * Millisecond"

definition DefaultRandomizationFactor :: rat where
  "DefaultRandomizationFactor = 1 / 2"

definition DefaultMultiplier :: rat where
  "DefaultMultiplier = 3 / 2"

definition DefaultMaxInterval :: Duration where
  "DefaultMaxInterval = 60 * Second"

definition DefaultMaxElapsedTime :: Duration where
  "DefaultMaxElapsedTime = 15 * Minute"

text \<open>
  Modelled from the spec: the options of the dependency (\<^verbatim>\<open>backoff.WithInitialInterval\<close>
  and its siblings, not under src/). Each one sets the field it is named after
  (section 4.1: "initialInterval: sets first delay, ...").
\<close>

datatype backoff_ExponentialBackOffOpts =
    backoff_WithInitialInterval Duration
  | backoff_WithRandomizationFactor rat
  | backoff_WithMultiplier rat
  | backoff_WithMaxInterval Duration
  | backoff_WithMaxElapsedTime Duration
  | backoff_WithRetryStopDuration Duration
  | backoff_WithClockProvider Clock

fun applyOpts :: "backoff_ExponentialBackOffOpts \<Rightarrow> ExponentialBackOff \<Rightarrow> ExponentialBackOff" where
  "applyOpts (backoff_WithInitialInterval d) b = b\<lparr>InitialInterval := d\<rparr>"
| "applyOpts (backoff_WithRandomizationFactor v) b = b\<lparr>RandomizationFactor := v\<rparr>"
| "applyOpts (backoff_WithMultiplier v) b = b\<lparr>Multiplier := v\<rparr>"
| "applyOpts (backoff_WithMaxInterval d) b = b\<lparr>MaxInterval := d\<rparr>"
| "applyOpts (backoff_WithMaxElapsedTime d) b = b\<lparr>MaxElapsedTime := d\<rparr>"
| "applyOpts (backoff_WithRetryStopDuration d) b = b\<lparr>StopAfter := d\<rparr>"
| "applyOpts (backoff_WithClockProvider c) b = b\<lparr>Clock := c\<rparr>"

fun applyAllOpts :: "backoff_ExponentialBackOffOpts list \<Rightarrow> ExponentialBackOff \<Rightarrow> ExponentialBackOff" where
  "applyAllOpts [] b = b"
| "applyAllOpts (fn # opts) b = applyAllOpts opts (applyOpts fn b)"

text \<open>
  Modelled from the spec: \<^verbatim>\<open>backoff.NewExponentialBackOff\<close>, not under src/: "all fields
  have defaults from the underlying exponential-backoff formula", the options are applied
  in the order given, and the fresh instance starts at the initial interval.
\<close>

definition backoff_NewExponentialBackOff ::
  "World \<Rightarrow> backoff_ExponentialBackOffOpts list \<Rightarrow> ExponentialBackOff" where
  "backoff_NewExponentialBackOff w opts =
     (let b = applyAllOpts opts
                \<lparr>InitialInterval = DefaultInitialInterval,
                 RandomizationFactor = DefaultRandomizationFactor,
                 Multiplier = DefaultMultiplier,
                 MaxInterval = DefaultMaxInterval,
                 MaxElapsedTime = DefaultMaxElapsedTime,
                 StopAfter = backoff_Stop,
                 Clock = SystemClock w,
                 currentInterval = 0,
                 exhausted = False\<rparr>
      in b\<lparr>currentInterval := InitialInterval b\<rparr>)"

text \<open>The conversion of a \<^verbatim>\<open>float64\<close> to a duration drops the fraction.\<close>

definition truncate_ns :: "rat \<Rightarrow> Duration" where
  "truncate_ns q = (if 0 \<le> q then \<lfloor>q\<rfloor> else \<lceil>q\<rceil>)"

text \<open>
  Modelled from the spec: the exponential strategy's next-interval operation
  (\<^verbatim>\<open>ExponentialBackOff.NextBackOff\<close>, not under src/), section 4.2: it "returns
  currentInterval adjusted by a random jitter in [currentInterval * (1 - randomizationFactor),
  currentInterval * (1 + randomizationFactor)], clamped to [0, maxInterval] if
  maxInterval > 0; then sets currentInterval = min(currentInterval * multiplier,
  maxInterval-or-unbounded) for the next call. Before returning, it checks accumulated
  elapsed time against maxElapsedTime/stopAfter; if exceeded, returns stop permanently".
  A randomization factor of 0 "removes jitter entirely". The elapsed time counts the
  interval about to be returned. A budget of 0 is no budget ("elapsed-time ceiling, if
  any"); a negative budget is exceeded at once, so that "the very first call can already
  report stop". The stop-after value a fresh policy has, the stop sentinel, stands for no
  alternative ceiling.
\<close>

definition getRandomValueFromInterval :: "rat \<Rightarrow> rat \<Rightarrow> Duration \<Rightarrow> Duration" where
  "getRandomValueFromInterval randomizationFactor random current =
     (if randomizationFactor = 0 then current
      else let delta = randomizationFactor * of_int current;
               minInterval = of_int current - delta;
               maxInterval = of_int current + delta
           in truncate_ns (minInterval + random * (maxInterval - minInterval)))"

definition clampInterval :: "Duration \<Rightarrow> Duration \<Rightarrow> Duration" where
  "clampInterval maxInterval d = (if 0 < maxInterval then max 0 (min maxInterval d) else d)"

definition incrementCurrentInterval :: "ExponentialBackOff \<Rightarrow> Duration" where
  "incrementCurrentInterval b =
     (let grown = truncate_ns (of_int (currentInterval b) * Multiplier b)
      in if 0 < MaxInterval b then min grown (MaxInterval b) else grown)"

definition overBudget :: "Duration \<Rightarrow> Duration \<Rightarrow> bool" where
  "overBudget budget t = (budget \<noteq> 0 \<and> budget < t)"

definition ExponentialBackOff_NextBackOff ::
  "rat \<Rightarrow> nat \<Rightarrow> ExponentialBackOff \<Rightarrow> Duration \<times> ExponentialBackOff" where
  "ExponentialBackOff_NextBackOff random k b =
     (if exhausted b then (backoff_Stop, b)
      else
        let elapsed = Clock b k;
            next = clampInterval (MaxInterval b)
                     (getRandomValueFromInterval (RandomizationFactor b) random (currentInterval b))
        in if overBudget (MaxElapsedTime b) (elapsed + next)
              \<or> (StopAfter b \<noteq> backoff_Stop \<and> overBudget (StopAfter b) (elapsed + next))
           then (backoff_Stop, b\<lparr>exhausted := True\<rparr>)
           else (next, b\<lparr>currentInterval := incrementCurrentInterval b\<rparr>))"

text \<open>
  Modelled from the spec: the strategy instances of the dependency (the interface
  \<^verbatim>\<open>backoff.BackOff\<close> and its implementations, not under src/). Section 4.2: the
  never-retry strategy "always returns stop", the no-delay strategy "always returns zero
  duration", the fixed-delay strategy "always returns the configured interval".
  Section 4.3: the retry-count limiter "wraps any strategy instance with a counter; after
  maxRetries successful (non-stop) calls, forces stop regardless of what the wrapped
  strategy would have returned". The wrapper made by \<^verbatim>\<open>backoff.WithContext\<close> carries
  the cancellation signal and reports stop once the signal is observed as fired.
\<close>

datatype backoff_BackOff =
    StopBackOff
  | ZeroBackOff
  | ConstantBackOff Duration
  | Exponential ExponentialBackOff
  | backOffTries backoff_BackOff uint64 uint64
  | backOffContext backoff_BackOff Context

fun NextBackOff :: "World \<Rightarrow> nat \<Rightarrow> backoff_BackOff \<Rightarrow> Duration \<times> backoff_BackOff" where
  "NextBackOff w k StopBackOff = (backoff_Stop, StopBackOff)"
| "NextBackOff w k ZeroBackOff = (0, ZeroBackOff)"
| "NextBackOff w k (ConstantBackOff interval) = (interval, ConstantBackOff interval)"
| "NextBackOff w k (Exponential e) =
     (case ExponentialBackOff_NextBackOff (Float64 w k) k e of
        (d, e') \<Rightarrow> (d, Exponential e'))"
| "NextBackOff w k (backOffTries delegate maxTries numTries) =
     (if maxTries \<le> numTries then (backoff_Stop, backOffTries delegate maxTries numTries)
      else case NextBackOff w k delegate of
        (d, delegate') \<Rightarrow>
          (d, backOffTries delegate' maxTries (if d = backoff_Stop then numTries else numTries + 1)))"
| "NextBackOff w k (backOffContext b ctx) =
     (if ctx (AtNextBackOff k) then (backoff_Stop, backOffContext b ctx)
      else case NextBackOff w k b of (d, b') \<Rightarrow> (d, backOffContext b' ctx))"

definition backoff_NewConstantBackOff :: "Duration \<Rightarrow> backoff_BackOff" where
  "backoff_NewConstantBackOff d = ConstantBackOff d"

definition backoff_WithMaxRetries :: "backoff_BackOff \<Rightarrow> uint64 \<Rightarrow> backoff_BackOff" where
  "backoff_WithMaxRetries b maxTries = backOffTries b maxTries 0"

fun backoff_WithContext :: "backoff_BackOff \<Rightarrow> Context \<Rightarrow> backoff_BackOff" where
  "backoff_WithContext (backOffContext b old) ctx = backOffContext b ctx"
| "backoff_WithContext b ctx = backOffContext b ctx"

fun getContext :: "backoff_BackOff \<Rightarrow> Context" where
  "getContext (backOffContext b ctx) = ctx"
| "getContext b = Background"

section \<open>The retry loop of the dependency\<close>

text \<open>
  What an iteration does, in order: an index handed to the consumer, a call of the
  strategy's next-interval operation with its answer, a wait that ran to its end, and a
  wait that the cancellation signal cut short.
\<close>

datatype event = Yielded go_int | Asked Duration | Slept Duration | Interrupted Duration

datatype error = errContinue | ctxErr

datatype result = Returned "error option" | OutOfFuel

text \<open>
  Modelled from the spec: \<^verbatim>\<open>backoff.Retry\<close>, not under src/, which drives the
  attempt-index mode (section 4.4): the operation runs first; when it asks for no more
  (a nil error) the loop "ends immediately -- no further delay is computed, no further
  strategy calls occur. Otherwise, compute the next delay via the strategy. If the
  strategy reports stop, the sequence ends. Otherwise, suspend for that duration,
  honoring the cancellation signal: if the signal fires during the wait, the sequence ends
  immediately, without yielding a further element". The loop may run forever, so it takes
  fuel: one unit for each run of the operation.
\<close>

fun backoff_Retry ::
  "nat \<Rightarrow> World \<Rightarrow> ('s \<Rightarrow> error option \<times> event list \<times> 's) \<Rightarrow> backoff_BackOff \<Rightarrow> nat \<Rightarrow> 's
     \<Rightarrow> event list \<times> result" where
  "backoff_Retry 0 w operation b k s = ([], OutOfFuel)"
| "backoff_Retry (Suc fuel) w operation b k s =
     (case operation s of
        (None, evs, s') \<Rightarrow> (evs, Returned None)
      | (Some err, evs, s') \<Rightarrow>
          (case NextBackOff w k b of
             (next, b') \<Rightarrow>
               if next = backoff_Stop
               then (evs @ [Asked next],
                     Returned (Some (if getContext b (AtNextBackOff k) then ctxErr else err)))
               else if getContext b (DuringWait k)
               then (evs @ [Asked next, Interrupted next], Returned (Some ctxErr))
               else (case backoff_Retry fuel w operation b' (Suc k) s' of
                       (rest, r) \<Rightarrow> (evs @ [Asked next, Slept next] @ rest, r))))"

section \<open>backoff.go: the policies\<close>

record constantOption =
  MaxRetries :: uint64
  Interval :: Duration

record exponentialOption =
  Options :: "backoff_ExponentialBackOffOpts list"
  MaxRetries :: uint64

text \<open>
  The option types. Only \<^verbatim>\<open>maxRetries\<close> implements both interfaces (\<^verbatim>\<open>Option\<close>), so
  it is the only constant option; an exponential option is either that or the wrapper
  \<^verbatim>\<open>opts\<close> around an option of the dependency. Both apply methods are unexported, so
  there are no other options.
\<close>

datatype Option = maxRetries uint64

type_synonym ConstantOption = Option

datatype ExponentialOption = both Option | opts backoff_ExponentialBackOffOpts

definition WithMaxRetries :: "uint64 \<Rightarrow> Option" where
  "WithMaxRetries v = maxRetries v"

fun applyToConstantOption :: "ConstantOption \<Rightarrow> constantOption \<Rightarrow> constantOption" where
  "applyToConstantOption (maxRetries v) co = co\<lparr>constantOption.MaxRetries := v\<rparr>"

fun applyToExponentialOption :: "ExponentialOption \<Rightarrow> exponentialOption \<Rightarrow> exponentialOption" where
  "applyToExponentialOption (both (maxRetries v)) eo = eo\<lparr>exponentialOption.MaxRetries := v\<rparr>"
| "applyToExponentialOption (opts v) eo = eo\<lparr>Options := Options eo @ [v]\<rparr>"

fun applyConstantOptions :: "ConstantOption list \<Rightarrow> constantOption \<Rightarrow> constantOption" where
  "applyConstantOptions [] co = co"
| "applyConstantOptions (v # options) co = applyConstantOptions options (applyToConstantOption v co)"

definition newConstantOption :: "Duration \<Rightarrow> ConstantOption list \<Rightarrow> constantOption" where
  "newConstantOption interval options =
     applyConstantOptions options \<lparr>constantOption.MaxRetries = 0, Interval = interval\<rparr>"

definition constantOption_New :: "constantOption \<Rightarrow> backoff_BackOff" where
  "constantOption_New co =
     (if Interval co < 0 then StopBackOff
      else
        let b = (if Interval co = 0 then ZeroBackOff
                 else backoff_NewConstantBackOff (Interval co))
        in if constantOption.MaxRetries co > 0
           then backoff_WithMaxRetries b (constantOption.MaxRetries co)
           else b)"

fun applyExponentialOptions :: "ExponentialOption list \<Rightarrow> exponentialOption \<Rightarrow> exponentialOption" where
  "applyExponentialOptions [] eo = eo"
| "applyExponentialOptions (v # options) eo =
     applyExponentialOptions options (applyToExponentialOption v eo)"

definition newExponentialOption :: "ExponentialOption list \<Rightarrow> exponentialOption" where
  "newExponentialOption options =
     applyExponentialOptions options \<lparr>Options = [], exponentialOption.MaxRetries = 0\<rparr>"

definition exponentialOption_New :: "exponentialOption \<Rightarrow> World \<Rightarrow> backoff_BackOff" where
  "exponentialOption_New eo w =
     (let b = Exponential (backoff_NewExponentialBackOff w (Options eo))
      in if exponentialOption.MaxRetries eo > 0
         then backoff_WithMaxRetries b (exponentialOption.MaxRetries eo)
         else b)"

definition newOpts :: "backoff_ExponentialBackOffOpts \<Rightarrow> ExponentialOption" where
  "newOpts v = opts v"

definition WithInitialInterval :: "Duration \<Rightarrow> ExponentialOption" where
  "WithInitialInterval d = newOpts (backoff_WithInitialInterval d)"

definition WithRandomizationFactor :: "rat \<Rightarrow> ExponentialOption" where
  "WithRandomizationFactor v = newOpts (backoff_WithRandomizationFactor v)"

definition WithMultiplier :: "rat \<Rightarrow> ExponentialOption" where
  "WithMultiplier v = newOpts (backoff_WithMultiplier v)"

definition WithMaxInterval :: "Duration \<Rightarrow> ExponentialOption" where
  "WithMaxInterval d = newOpts (backoff_WithMaxInterval d)"

definition WithMaxElapsedTime :: "Duration \<Rightarrow> ExponentialOption" where
  "WithMaxElapsedTime d = newOpts (backoff_WithMaxElapsedTime d)"

definition WithRetryStopDuration :: "Duration \<Rightarrow> ExponentialOption" where
  "WithRetryStopDuration d = newOpts (backoff_WithRetryStopDuration d)"

definition WithClockProvider :: "Clock \<Rightarrow> ExponentialOption" where
  "WithClockProvider c = newOpts (backoff_WithClockProvider c)"

section \<open>backoff.go: the attempt-index mode\<close>

text \<open>
  An iterator is run by giving it the consumer \<^verbatim>\<open>yield\<close>. The consumer may keep state,
  so its answer depends on how many elements it has seen before as well as on the element.
  A run is given fuel and the world; it returns what happened and whether the iterator
  returned within the fuel.
\<close>

datatype ending = Ended | Unfinished

type_synonym Seq = "nat \<Rightarrow> World \<Rightarrow> (nat \<Rightarrow> go_int \<Rightarrow> bool) \<Rightarrow> event list \<times> ending"

type_synonym BackOff = "Context option \<Rightarrow> Seq"

text \<open>
  The closure \<^verbatim>\<open>task\<close> of \<^verbatim>\<open>newBackOff\<close>: its state is the captured variable \<^verbatim>\<open>i\<close>
  and the number of elements the consumer has been given.
\<close>

fun task :: "(nat \<Rightarrow> go_int \<Rightarrow> bool) \<Rightarrow> go_int \<times> nat \<Rightarrow> error option \<times> event list \<times> (go_int \<times> nat)" where
  "task yield (i, n) =
     (if \<not> yield n i then (None, [Yielded i], (i, Suc n))
      else (Some errContinue, [Yielded i], (i + 1, Suc n)))"

definition newBackOff :: "(World \<Rightarrow> backoff_BackOff) \<Rightarrow> BackOff" where
  "newBackOff fn ctx fuel w yield =
     (let b = fn w;
          b = (case ctx of None \<Rightarrow> b | Some c \<Rightarrow> backoff_WithContext b c)
      in case backoff_Retry fuel w (task yield) b 0 (0, 0) of
           (evs, Returned err) \<Rightarrow> (evs, Ended)
         | (evs, OutOfFuel) \<Rightarrow> (evs, Unfinished))"

definition NewConstant :: "Duration \<Rightarrow> ConstantOption list \<Rightarrow> BackOff" where
  "NewConstant interval options =
     (let co = newConstantOption interval options
      in newBackOff (\<lambda>w. constantOption_New co))"

definition NewExponential :: "ExponentialOption list \<Rightarrow> BackOff" where
  "NewExponential options =
     (let eo = newExponentialOption options
      in newBackOff (exponentialOption_New eo))"

section \<open>The duration mode\<close>

type_synonym Seq2 =
  "nat \<Rightarrow> World \<Rightarrow> (nat \<Rightarrow> go_int \<Rightarrow> Duration \<Rightarrow> bool) \<Rightarrow> (go_int \<times> Duration) list \<times> ending"

type_synonym BackOffDuration = Seq2

text \<open>
  The \<^verbatim>\<open>for\<close> loop of \<^verbatim>\<open>newBackOffDuration\<close>; \<open>k\<close> counts its rounds. The result lists
  the pairs the consumer was given.
\<close>

fun durationLoop ::
  "nat \<Rightarrow> World \<Rightarrow> (nat \<Rightarrow> go_int \<Rightarrow> Duration \<Rightarrow> bool) \<Rightarrow> nat \<Rightarrow> go_int \<Rightarrow> backoff_BackOff
     \<Rightarrow> (go_int \<times> Duration) list \<times> ending" where
  "durationLoop 0 w yield k i b = ([], Unfinished)"
| "durationLoop (Suc fuel) w yield k i b =
     (case NextBackOff w k b of
        (d, b') \<Rightarrow>
          if d = backoff_Stop then ([], Ended)
          else if \<not> yield k i d then ([(i, d)], Ended)
          else (case durationLoop fuel w yield (Suc k) (i + 1) b' of
                  (rest, e) \<Rightarrow> ((i, d) # rest, e)))"

definition newBackOffDuration :: "(World \<Rightarrow> backoff_BackOff) \<Rightarrow> BackOffDuration" where
  "newBackOffDuration fn fuel w yield = durationLoop fuel w yield 0 0 (fn w)"

definition NewConstantDuration :: "Duration \<Rightarrow> ConstantOption list \<Rightarrow> BackOffDuration" where
  "NewConstantDuration interval options =
     (let co = newConstantOption interval options
      in newBackOffDuration (\<lambda>w. constantOption_New co))"

definition NewExponentialDuration :: "ExponentialOption list \<Rightarrow> BackOffDuration" where
  "NewExponentialDuration options =
     (let eo = newExponentialOption options
      in newBackOffDuration (exponentialOption_New eo))"

section \<open>Reading a run\<close>

fun indices :: "event list \<Rightarrow> go_int list" where
  "indices [] = []"
| "indices (Yielded i # evs) = i # indices evs"
| "indices (e # evs) = indices evs"

fun waited :: "event list \<Rightarrow> Duration" where
  "waited [] = 0"
| "waited (Slept d # evs) = d + waited evs"
| "waited (e # evs) = waited evs"

definition keepGoing :: "nat \<Rightarrow> go_int \<Rightarrow> bool" where
  "keepGoing n i = True"

definition keepGoing2 :: "nat \<Rightarrow> go_int \<Rightarrow> Duration \<Rightarrow> bool" where
  "keepGoing2 n i d = True"

fun waits :: "event list \<Rightarrow> nat" where
  "waits [] = 0"
| "waits (Slept d # evs) = Suc (waits evs)"
| "waits (Interrupted d # evs) = Suc (waits evs)"
| "waits (e # evs) = waits evs"

text \<open>Two options set the same field of the policy.\<close>

fun sameOpts :: "backoff_ExponentialBackOffOpts \<Rightarrow> backoff_ExponentialBackOffOpts \<Rightarrow> bool" where
  "sameOpts (backoff_WithInitialInterval a) (backoff_WithInitialInterval b) = True"
| "sameOpts (backoff_WithRandomizationFactor a) (backoff_WithRandomizationFactor b) = True"
| "sameOpts (backoff_WithMultiplier a) (backoff_WithMultiplier b) = True"
| "sameOpts (backoff_WithMaxInterval a) (backoff_WithMaxInterval b) = True"
| "sameOpts (backoff_WithMaxElapsedTime a) (backoff_WithMaxElapsedTime b) = True"
| "sameOpts (backoff_WithRetryStopDuration a) (backoff_WithRetryStopDuration b) = True"
| "sameOpts (backoff_WithClockProvider a) (backoff_WithClockProvider b) = True"
| "sameOpts a b = False"

fun sameField :: "ExponentialOption \<Rightarrow> ExponentialOption \<Rightarrow> bool" where
  "sameField (both a) (both b) = True"
| "sameField (opts a) (opts b) = sameOpts a b"
| "sameField a b = False"

text \<open>
  Last-write-wins, in the spec's words ("later options may overwrite earlier ones for the
  same field"): the value of a field is that of the last option in the list that sets it,
  and the default when no option does. \<open>pick\<close> says which value, if any, an option sets.
\<close>

fun lastSet :: "('o \<Rightarrow> 'v option) \<Rightarrow> 'v \<Rightarrow> 'o list \<Rightarrow> 'v" where
  "lastSet pick d [] = d"
| "lastSet pick d (x # xs) = lastSet pick (case pick x of None \<Rightarrow> d | Some v \<Rightarrow> v) xs"

fun pickMaxRetries :: "Option \<Rightarrow> uint64 option" where
  "pickMaxRetries (maxRetries v) = Some v"

fun pickMaxRetriesE :: "ExponentialOption \<Rightarrow> uint64 option" where
  "pickMaxRetriesE (both v) = pickMaxRetries v"
| "pickMaxRetriesE (opts v) = None"

fun pickInitialInterval :: "backoff_ExponentialBackOffOpts \<Rightarrow> Duration option" where
  "pickInitialInterval (backoff_WithInitialInterval d) = Some d"
| "pickInitialInterval v = None"

fun pickRandomizationFactor :: "backoff_ExponentialBackOffOpts \<Rightarrow> rat option" where
  "pickRandomizationFactor (backoff_WithRandomizationFactor x) = Some x"
| "pickRandomizationFactor v = None"

fun pickMultiplier :: "backoff_ExponentialBackOffOpts \<Rightarrow> rat option" where
  "pickMultiplier (backoff_WithMultiplier x) = Some x"
| "pickMultiplier v = None"

fun pickMaxInterval :: "backoff_ExponentialBackOffOpts \<Rightarrow> Duration option" where
  "pickMaxInterval (backoff_WithMaxInterval d) = Some d"
| "pickMaxInterval v = None"

fun pickMaxElapsedTime :: "backoff_ExponentialBackOffOpts \<Rightarrow> Duration option" where
  "pickMaxElapsedTime (backoff_WithMaxElapsedTime d) = Some d"
| "pickMaxElapsedTime v = None"

fun pickRetryStopDuration :: "backoff_ExponentialBackOffOpts \<Rightarrow> Duration option" where
  "pickRetryStopDuration (backoff_WithRetryStopDuration d) = Some d"
| "pickRetryStopDuration v = None"

fun pickClockProvider :: "backoff_ExponentialBackOffOpts \<Rightarrow> Clock option" where
  "pickClockProvider (backoff_WithClockProvider c) = Some c"
| "pickClockProvider v = None"

text \<open>The options of the dependency among the options given, in the order given.\<close>

fun dependencyOptions :: "ExponentialOption list \<Rightarrow> backoff_ExponentialBackOffOpts list" where
  "dependencyOptions [] = []"
| "dependencyOptions (opts v # options) = v # dependencyOptions options"
| "dependencyOptions (both v # options) = dependencyOptions options"

section \<open>backoff.go: the constructors on option values that may be nil\<close>








section \<open>Worlds and values for concrete runs\<close>

text \<open>A world whose clock stands still, for running the model on concrete inputs.\<close>

definition idleWorld :: World where
  "idleWorld = \<lparr>SystemClock = (\<lambda>k. 0), Float64 = (\<lambda>k. 0)\<rparr>"

text \<open>
  A world whose clock reads 15 minutes at every request after the first: the consumer
  took that long over the first element.
\<close>

definition stalledWorld :: World where
  "stalledWorld =
     \<lparr>SystemClock = (\<lambda>k. if k = 0 then 0 else 15 * Minute), Float64 = (\<lambda>k. 0)\<rparr>"

text \<open>The five intervals of the scenario 10s, multiplier 1.5.\<close>

definition scenarioIntervals :: "Duration list" where
  "scenarioIntervals =
     [10 * Second, 15 * Second, 22500 * Millisecond, 33750 * Millisecond, 50625 * Millisecond]"

section \<open>Basic facts\<close>

declare backoff_Retry.simps [simp del]

lemma Interval_applyConstantOptions:
  "Interval (applyConstantOptions options co) = Interval co"
proof (induction options arbitrary: co)
  case Nil
  show ?case by simp
next
  case (Cons v options)
  show ?case by (cases v) (simp add: Cons.IH)
qed

lemma Interval_newConstantOption:
  "Interval (newConstantOption interval options) = interval"
  by (simp add: newConstantOption_def Interval_applyConstantOptions)

lemma constantOption_New_negative:
  "interval < 0 \<Longrightarrow> constantOption_New (newConstantOption interval options) = StopBackOff"
  by (simp add: constantOption_New_def Interval_newConstantOption)

lemma newBackOff_unfold:
  "newBackOff fn ctx fuel w yield =
     (fst (backoff_Retry fuel w (task yield)
             (case ctx of None \<Rightarrow> fn w | Some c \<Rightarrow> backoff_WithContext (fn w) c) 0 (0, 0)),
      case snd (backoff_Retry fuel w (task yield)
             (case ctx of None \<Rightarrow> fn w | Some c \<Rightarrow> backoff_WithContext (fn w) c) 0 (0, 0)) of
        Returned err \<Rightarrow> Ended | OutOfFuel \<Rightarrow> Unfinished)"
  by (simp add: newBackOff_def Let_def split: prod.splits result.splits option.splits)

section \<open>The never-retry strategy\<close>

lemma Retry_strategy_stops:
  assumes "fst (NextBackOff w k b) = backoff_Stop"
  shows "indices (fst (backoff_Retry (Suc fuel) w (task yield) b k (i, n))) = [i]
         \<and> waited (fst (backoff_Retry (Suc fuel) w (task yield) b k (i, n))) = 0
         \<and> (\<exists>err. snd (backoff_Retry (Suc fuel) w (task yield) b k (i, n)) = Returned err)"
proof (cases "NextBackOff w k b")
  case (Pair d b')
  with assms have "d = backoff_Stop" by simp
  with Pair show ?thesis by (simp add: backoff_Retry.simps)
qed

lemma never_retry_run:
  assumes "interval < 0"
  shows "indices (fst (NewConstant interval options ctx (Suc fuel) w yield)) = [0]
         \<and> snd (NewConstant interval options ctx (Suc fuel) w yield) = Ended
         \<and> waited (fst (NewConstant interval options ctx (Suc fuel) w yield)) = 0"
proof -
  let ?b = "case ctx of None \<Rightarrow> StopBackOff | Some c \<Rightarrow> backoff_WithContext StopBackOff c"
  have "fst (NextBackOff w 0 ?b) = backoff_Stop"
    by (cases ctx) simp_all
  from Retry_strategy_stops [OF this, of fuel yield 0 0] assms show ?thesis
    by (auto simp add: NewConstant_def newBackOff_unfold constantOption_New_negative)
qed

text \<open>
  Claim C2. For every interval below zero and every retry limit, the attempt-index
  sequence of \<^verbatim>\<open>NewConstant(interval, WithMaxRetries(n))\<close> hands the consumer exactly one
  index, 0, and then ends: whatever the consumer answers, whether or not a cancellation
  signal is given, and with one unit of fuel or more. Nothing is waited for.
\<close>

theorem never_retry_yields_only_index_0:
  assumes "interval < 0"
  shows "indices (fst (NewConstant interval [WithMaxRetries n] ctx (Suc fuel) w yield)) = [0]
         \<and> snd (NewConstant interval [WithMaxRetries n] ctx (Suc fuel) w yield) = Ended
         \<and> waited (fst (NewConstant interval [WithMaxRetries n] ctx (Suc fuel) w yield)) = 0"
  using assms by (rule never_retry_run)

theorem never_retry_yields_only_index_0_witness:
  "indices (fst (NewConstant (- 1) [WithMaxRetries 3] None (Suc 0) idleWorld keepGoing)) = [0]
   \<and> snd (NewConstant (- 1) [WithMaxRetries 3] None (Suc 0) idleWorld keepGoing) = Ended
   \<and> waited (fst (NewConstant (- 1) [WithMaxRetries 3] None (Suc 0) idleWorld keepGoing)) = 0"
  using never_retry_yields_only_index_0 [of "- 1" 3 None 0 idleWorld keepGoing] by simp

text \<open>
  Claim C10. In duration mode the stop check comes before the first yield: for every
  interval below zero and any options, \<^verbatim>\<open>NewConstantDuration\<close> hands the consumer no pair
  at all and ends, while the attempt-index sequence of the same policy still hands over
  index 0 before it ends.
\<close>

theorem duration_mode_never_retry_is_empty:
  assumes "interval < 0"
  shows "NewConstantDuration interval options (Suc fuel) w yield2 = ([], Ended)
         \<and> indices (fst (NewConstant interval options ctx (Suc fuel) w yield)) = [0]
         \<and> snd (NewConstant interval options ctx (Suc fuel) w yield) = Ended"
proof -
  from assms have "NewConstantDuration interval options (Suc fuel) w yield2 = ([], Ended)"
    by (simp add: NewConstantDuration_def newBackOffDuration_def constantOption_New_negative)
  with never_retry_run [OF assms] show ?thesis by simp
qed

theorem duration_mode_never_retry_is_empty_witness:
  "NewConstantDuration (- 1) [WithMaxRetries 3] (Suc 0) idleWorld keepGoing2 = ([], Ended)
   \<and> indices (fst (NewConstant (- 1) [WithMaxRetries 3] None (Suc 0) idleWorld keepGoing)) = [0]
   \<and> snd (NewConstant (- 1) [WithMaxRetries 3] None (Suc 0) idleWorld keepGoing) = Ended"
  using duration_mode_never_retry_is_empty
    [of "- 1" "[WithMaxRetries 3]" 0 idleWorld keepGoing2 None keepGoing]
  by simp

section \<open>The two scenarios of the duration mode\<close>

lemma constant_42_strategy:
  "constantOption_New (newConstantOption (42 * Second) [WithMaxRetries 5])
   = backOffTries (ConstantBackOff 42000000000) 5 0"
  by (simp add: constantOption_New_def newConstantOption_def WithMaxRetries_def Second_def
      backoff_NewConstantBackOff_def backoff_WithMaxRetries_def)

text \<open>
  Claim C3. The constant strategy in duration mode with interval 42s and at most 5
  retries hands a consumer that never breaks exactly five pairs, with the indices 0 to 4
  and the duration 42s each, and then ends; six units of fuel or more are enough.
\<close>

theorem constant_42s_five_pairs:
  "NewConstantDuration (42 * Second) [WithMaxRetries 5] (6 + fuel) w keepGoing2
   = ([(0, 42 * Second), (1, 42 * Second), (2, 42 * Second), (3, 42 * Second), (4, 42 * Second)],
      Ended)"
proof -
  have six: "6 + fuel = Suc (Suc (Suc (Suc (Suc (Suc fuel)))))" by simp
  show ?thesis
    unfolding NewConstantDuration_def newBackOffDuration_def Let_def constant_42_strategy six
    by (simp add: keepGoing2_def backoff_Stop_def Second_def word_le_nat_alt)
qed

lemma exponential_10s_strategy:
  "exponentialOption_New
     (newExponentialOption
        [WithInitialInterval (10 * Second), WithRandomizationFactor 0, both (WithMaxRetries 5)]) w
   = backOffTries
       (Exponential
          \<lparr>InitialInterval = 10000000000, RandomizationFactor = 0, Multiplier = 3 / 2,
           MaxInterval = 60000000000, MaxElapsedTime = 900000000000, StopAfter = - 1,
           Clock = SystemClock w, currentInterval = 10000000000, exhausted = False\<rparr>) 5 0"
  by (simp add: exponentialOption_New_def newExponentialOption_def WithInitialInterval_def
      WithRandomizationFactor_def WithMaxRetries_def newOpts_def backoff_NewExponentialBackOff_def
      backoff_WithMaxRetries_def Second_def Minute_def Millisecond_def DefaultInitialInterval_def
      DefaultRandomizationFactor_def DefaultMultiplier_def DefaultMaxInterval_def
      DefaultMaxElapsedTime_def backoff_Stop_def)

lemma all_below_5:
  "(\<forall>k<5. P k) \<longleftrightarrow>
     P 0 \<and> P (Suc 0) \<and> P (Suc (Suc 0)) \<and> P (Suc (Suc (Suc 0))) \<and> P (Suc (Suc (Suc (Suc 0))))"
  for P :: "nat \<Rightarrow> bool"
proof
  assume "\<forall>k<5. P k"
  then show "P 0 \<and> P (Suc 0) \<and> P (Suc (Suc 0)) \<and> P (Suc (Suc (Suc 0)))
      \<and> P (Suc (Suc (Suc (Suc 0))))" by simp
next
  assume *: "P 0 \<and> P (Suc 0) \<and> P (Suc (Suc 0)) \<and> P (Suc (Suc (Suc 0)))
      \<and> P (Suc (Suc (Suc (Suc 0))))"
  show "\<forall>k<5. P k"
  proof (intro allI impI)
    fix k :: nat assume "k < 5"
    then have "k = 0 \<or> k = Suc 0 \<or> k = Suc (Suc 0) \<or> k = Suc (Suc (Suc 0))
        \<or> k = Suc (Suc (Suc (Suc 0)))" by arith
    with * show "P k" by auto
  qed
qed

text \<open>
  Claim C1, as amended. The exponential strategy in duration mode with initial interval
  10s, randomization factor 0, at most 5 retries and every other option at its default
  (multiplier 1.5, time budget 15 minutes) hands a consumer that never breaks exactly the
  pairs (0, 10s), (1, 15s), (2, 22.5s), (3, 33.75s), (4, 50.625s) and then ends, if and
  only if at each of the five requests the time elapsed since the strategy was created
  plus the interval about to be returned is within the budget of 15 minutes. Six units of
  fuel or more are enough.
\<close>

theorem exponential_10s_five_pairs:
  "NewExponentialDuration
     [WithInitialInterval (10 * Second), WithRandomizationFactor 0, both (WithMaxRetries 5)]
     (6 + fuel) w keepGoing2
   = ([(0, 10 * Second), (1, 15 * Second), (2, 22500 * Millisecond),
       (3, 33750 * Millisecond), (4, 50625 * Millisecond)], Ended)
   \<longleftrightarrow> (\<forall>k<5. SystemClock w k + scenarioIntervals ! k \<le> 15 * Minute)"
proof -
  have six: "6 + fuel = Suc (Suc (Suc (Suc (Suc (Suc fuel)))))" by simp
  show ?thesis
    unfolding NewExponentialDuration_def newBackOffDuration_def Let_def exponential_10s_strategy six
      all_below_5 scenarioIntervals_def
    by (auto simp add: keepGoing2_def backoff_Stop_def Second_def Millisecond_def Minute_def
        word_le_nat_alt
        ExponentialBackOff_NextBackOff_def getRandomValueFromInterval_def clampInterval_def
        incrementCurrentInterval_def overBudget_def truncate_ns_def)
qed

theorem exponential_10s_five_pairs_witness:
  "NewExponentialDuration
     [WithInitialInterval (10 * Second), WithRandomizationFactor 0, both (WithMaxRetries 5)]
     6 idleWorld keepGoing2
   = ([(0, 10 * Second), (1, 15 * Second), (2, 22500 * Millisecond),
       (3, 33750 * Millisecond), (4, 50625 * Millisecond)], Ended)"
proof -
  have "\<forall>k<5. SystemClock idleWorld k + scenarioIntervals ! k \<le> 15 * Minute"
    unfolding all_below_5
    by (simp add: idleWorld_def scenarioIntervals_def Second_def Millisecond_def Minute_def)
  with exponential_10s_five_pairs [of 0 idleWorld] show ?thesis by simp
qed

text \<open>
  Claim C1 as stated fails when the consumer takes 15 minutes over the first element: the
  second request is past the default budget, the strategy reports stop, and the sequence
  ends after the one pair (0, 10s).
\<close>

theorem exponential_10s_stalled_counterexample:
  "NewExponentialDuration
     [WithInitialInterval (10 * Second), WithRandomizationFactor 0, both (WithMaxRetries 5)]
     6 stalledWorld keepGoing2
   = ([(0, 10 * Second)], Ended)"
proof -
  have six: "(6 :: nat) = Suc (Suc (Suc (Suc (Suc (Suc 0)))))" by simp
  show ?thesis
    unfolding NewExponentialDuration_def newBackOffDuration_def Let_def exponential_10s_strategy six
    by (simp add: keepGoing2_def backoff_Stop_def Second_def Millisecond_def Minute_def
        word_le_nat_alt stalledWorld_def
        ExponentialBackOff_NextBackOff_def getRandomValueFromInterval_def clampInterval_def
        incrementCurrentInterval_def overBudget_def truncate_ns_def)
qed

section \<open>Options are applied in order\<close>

lemma applyConstantOptions_snoc:
  "applyConstantOptions (options @ [v]) co = applyToConstantOption v (applyConstantOptions options co)"
  by (induction options arbitrary: co) simp_all

lemma applyExponentialOptions_snoc:
  "applyExponentialOptions (options @ [v]) eo
   = applyToExponentialOption v (applyExponentialOptions options eo)"
  by (induction options arbitrary: eo) simp_all


lemma constant_later_wins:
  "newConstantOption interval [o1, o2] = newConstantOption interval [o2]"
  by (cases o1; cases o2) (simp add: newConstantOption_def)

lemma sameOpts_overwrites:
  "sameOpts a b \<Longrightarrow> applyOpts b (applyOpts a e) = applyOpts b e"
  by (cases a; cases b) simp_all

lemma exponential_later_wins:
  assumes "sameField p1 p2"
  shows "exponentialOption_New (newExponentialOption [p1, p2]) w
         = exponentialOption_New (newExponentialOption [p2]) w"
proof (cases p1)
  case (both a)
  with assms obtain b where p2: "p2 = both b" by (cases p2) simp_all
  show ?thesis
    by (cases a; cases b) (simp add: both p2 newExponentialOption_def exponentialOption_New_def)
next
  case (opts a)
  with assms obtain b where p2: "p2 = opts b" and same: "sameOpts a b" by (cases p2) simp_all
  show ?thesis
    by (simp add: opts p2 newExponentialOption_def exponentialOption_New_def
        backoff_NewExponentialBackOff_def sameOpts_overwrites [OF same])
qed

lemma lastSet_snoc:
  "lastSet pick d (xs @ [x]) = (case pick x of None \<Rightarrow> lastSet pick d xs | Some v \<Rightarrow> v)"
  by (induction xs arbitrary: d) (simp_all split: option.splits)

lemma applyConstantOptions_lastSet:
  "applyConstantOptions options co
   = \<lparr>constantOption.MaxRetries = lastSet pickMaxRetries (constantOption.MaxRetries co) options,
      Interval = Interval co\<rparr>"
proof (induction options arbitrary: co)
  case Nil
  show ?case by simp
next
  case (Cons v options)
  show ?case by (cases v) (simp add: Cons.IH)
qed

lemma applyExponentialOptions_lastSet:
  "applyExponentialOptions options eo
   = \<lparr>Options = Options eo @ dependencyOptions options,
      exponentialOption.MaxRetries
        = lastSet pickMaxRetriesE (exponentialOption.MaxRetries eo) options\<rparr>"
proof (induction options arbitrary: eo)
  case Nil
  show ?case by simp
next
  case (Cons v options)
  show ?case
  proof (cases v)
    case (both x)
    then show ?thesis by (cases x) (simp add: Cons.IH)
  next
    case (opts x)
    then show ?thesis by (simp add: Cons.IH)
  qed
qed

lemma applyAllOpts_lastSet:
  "applyAllOpts os b
   = \<lparr>InitialInterval = lastSet pickInitialInterval (InitialInterval b) os,
      RandomizationFactor = lastSet pickRandomizationFactor (RandomizationFactor b) os,
      Multiplier = lastSet pickMultiplier (Multiplier b) os,
      MaxInterval = lastSet pickMaxInterval (MaxInterval b) os,
      MaxElapsedTime = lastSet pickMaxElapsedTime (MaxElapsedTime b) os,
      StopAfter = lastSet pickRetryStopDuration (StopAfter b) os,
      Clock = lastSet pickClockProvider (Clock b) os,
      currentInterval = currentInterval b,
      exhausted = exhausted b\<rparr>"
proof (induction os arbitrary: b)
  case Nil
  show ?case by simp
next
  case (Cons v os)
  show ?case by (cases v) (simp_all add: Cons.IH)
qed

lemma NewExponentialBackOff_lastSet:
  "backoff_NewExponentialBackOff w os
   = \<lparr>InitialInterval = lastSet pickInitialInterval DefaultInitialInterval os,
      RandomizationFactor = lastSet pickRandomizationFactor DefaultRandomizationFactor os,
      Multiplier = lastSet pickMultiplier DefaultMultiplier os,
      MaxInterval = lastSet pickMaxInterval DefaultMaxInterval os,
      MaxElapsedTime = lastSet pickMaxElapsedTime DefaultMaxElapsedTime os,
      StopAfter = lastSet pickRetryStopDuration backoff_Stop os,
      Clock = lastSet pickClockProvider (SystemClock w) os,
      currentInterval = lastSet pickInitialInterval DefaultInitialInterval os,
      exhausted = False\<rparr>"
  by (simp add: backoff_NewExponentialBackOff_def Let_def applyAllOpts_lastSet)

text \<open>
  Claim C6, as amended. The constructors apply the options in the order they are listed
  and the later option wins, with no conflict error. For every interval and every list of
  options, the constant policy keeps the interval and has the retry limit of the last
  option (0 when there is none), so \<^verbatim>\<open>NewConstant(interval, o1, o2)\<close> builds the same policy
  and the same sequence factory as \<^verbatim>\<open>NewConstant(interval, o2)\<close>. The exponential policy
  has the retry limit of the last option that sets it and keeps every option of the
  dependency, in the order given; the strategy built from it has, in each field, the value
  of the last option that sets that field, and the default when none does. So for two
  options \<open>p1\<close>, \<open>p2\<close> that set the same field \<^verbatim>\<open>NewExponential(p1, p2)\<close> builds the same
  strategy and the same sequence factory as \<^verbatim>\<open>NewExponential(p2)\<close>, with the value of \<open>p2\<close>
  in effect.
\<close>

theorem later_option_wins:
  "newConstantOption interval options
     = \<lparr>constantOption.MaxRetries = lastSet pickMaxRetries 0 options, Interval = interval\<rparr>
   \<and> newExponentialOption eoptions
     = \<lparr>Options = dependencyOptions eoptions,
        exponentialOption.MaxRetries = lastSet pickMaxRetriesE 0 eoptions\<rparr>
   \<and> exponentialOption_New (newExponentialOption eoptions) w
     = (let b = Exponential
            \<lparr>InitialInterval
               = lastSet pickInitialInterval DefaultInitialInterval (dependencyOptions eoptions),
             RandomizationFactor
               = lastSet pickRandomizationFactor DefaultRandomizationFactor
                   (dependencyOptions eoptions),
             Multiplier = lastSet pickMultiplier DefaultMultiplier (dependencyOptions eoptions),
             MaxInterval = lastSet pickMaxInterval DefaultMaxInterval (dependencyOptions eoptions),
             MaxElapsedTime
               = lastSet pickMaxElapsedTime DefaultMaxElapsedTime (dependencyOptions eoptions),
             StopAfter = lastSet pickRetryStopDuration backoff_Stop (dependencyOptions eoptions),
             Clock = lastSet pickClockProvider (SystemClock w) (dependencyOptions eoptions),
             currentInterval
               = lastSet pickInitialInterval DefaultInitialInterval (dependencyOptions eoptions),
             exhausted = False\<rparr>
        in if lastSet pickMaxRetriesE 0 eoptions > 0
           then backOffTries b (lastSet pickMaxRetriesE 0 eoptions) 0
           else b)
   \<and> lastSet pick d (xs @ [x]) = (case pick x of None \<Rightarrow> lastSet pick d xs | Some v \<Rightarrow> v)
   \<and> newConstantOption interval (options @ [o2])
     = applyToConstantOption o2 (newConstantOption interval options)
   \<and> newExponentialOption (eoptions @ [p2])
     = applyToExponentialOption p2 (newExponentialOption eoptions)
   \<and> newConstantOption interval [o1, o2] = newConstantOption interval [o2]
   \<and> NewConstant interval [o1, o2] = NewConstant interval [o2]
   \<and> (sameField p1 p2 \<longrightarrow>
        exponentialOption_New (newExponentialOption [p1, p2])
          = exponentialOption_New (newExponentialOption [p2])
        \<and> NewExponential [p1, p2] = NewExponential [p2])"
proof -
  have policy_c: "newConstantOption interval options
     = \<lparr>constantOption.MaxRetries = lastSet pickMaxRetries 0 options, Interval = interval\<rparr>"
    by (simp add: newConstantOption_def applyConstantOptions_lastSet)
  have policy_e: "newExponentialOption eoptions
     = \<lparr>Options = dependencyOptions eoptions,
        exponentialOption.MaxRetries = lastSet pickMaxRetriesE 0 eoptions\<rparr>"
    by (simp add: newExponentialOption_def applyExponentialOptions_lastSet)
  have strategy_e: "exponentialOption_New (newExponentialOption eoptions) w
     = (let b = Exponential
            \<lparr>InitialInterval
               = lastSet pickInitialInterval DefaultInitialInterval (dependencyOptions eoptions),
             RandomizationFactor
               = lastSet pickRandomizationFactor DefaultRandomizationFactor
                   (dependencyOptions eoptions),
             Multiplier = lastSet pickMultiplier DefaultMultiplier (dependencyOptions eoptions),
             MaxInterval = lastSet pickMaxInterval DefaultMaxInterval (dependencyOptions eoptions),
             MaxElapsedTime
               = lastSet pickMaxElapsedTime DefaultMaxElapsedTime (dependencyOptions eoptions),
             StopAfter = lastSet pickRetryStopDuration backoff_Stop (dependencyOptions eoptions),
             Clock = lastSet pickClockProvider (SystemClock w) (dependencyOptions eoptions),
             currentInterval
               = lastSet pickInitialInterval DefaultInitialInterval (dependencyOptions eoptions),
             exhausted = False\<rparr>
        in if lastSet pickMaxRetriesE 0 eoptions > 0
           then backOffTries b (lastSet pickMaxRetriesE 0 eoptions) 0
           else b)"
    unfolding policy_e
    by (simp add: exponentialOption_New_def NewExponentialBackOff_lastSet Let_def
        backoff_WithMaxRetries_def)
  have order_c: "newConstantOption interval (options @ [o2])
      = applyToConstantOption o2 (newConstantOption interval options)"
    by (simp add: newConstantOption_def applyConstantOptions_snoc)
  have order_e: "newExponentialOption (eoptions @ [p2])
      = applyToExponentialOption p2 (newExponentialOption eoptions)"
    by (simp add: newExponentialOption_def applyExponentialOptions_snoc)
  have factory_c: "NewConstant interval [o1, o2] = NewConstant interval [o2]"
    by (simp add: NewConstant_def constant_later_wins)
  have same_e: "exponentialOption_New (newExponentialOption [p1, p2])
      = exponentialOption_New (newExponentialOption [p2])" if "sameField p1 p2"
    by (rule ext) (rule exponential_later_wins [OF that])
  then have factory_e: "NewExponential [p1, p2] = NewExponential [p2]" if "sameField p1 p2"
    using that by (simp add: NewExponential_def)
  from policy_c policy_e strategy_e lastSet_snoc [of pick d xs x] order_c order_e
    constant_later_wins [of interval o1 o2] factory_c same_e factory_e
  show ?thesis by blast
qed

theorem later_option_wins_witness:
  "newConstantOption 1234 [WithMaxRetries 1, WithMaxRetries 7890]
     = \<lparr>constantOption.MaxRetries = 7890, Interval = 1234\<rparr>
   \<and> Multiplier (backoff_NewExponentialBackOff idleWorld
        (Options (newExponentialOption [WithMultiplier 2, WithMultiplier 3]))) = 3
   \<and> exponentialOption_New
       (newExponentialOption [WithMultiplier 2, WithMultiplier 3])
     = exponentialOption_New (newExponentialOption [WithMultiplier 3])"
proof -
  have "sameField (WithMultiplier 2) (WithMultiplier 3)"
    by (simp add: WithMultiplier_def newOpts_def)
  with later_option_wins
    [of 1234 "[WithMaxRetries 1, WithMaxRetries 7890]" "[WithMultiplier 2, WithMultiplier 3]"
        idleWorld pickMaxRetries 0 "[]" "WithMaxRetries 1" "WithMaxRetries 1"
        "WithMultiplier 3" "WithMaxRetries 1" "WithMultiplier 2"]
  show ?thesis
    by (simp add: WithMultiplier_def newOpts_def WithMaxRetries_def newExponentialOption_def
        backoff_NewExponentialBackOff_def)
qed

text \<open>
  Claim C6 as stated fails for the policy that \<^verbatim>\<open>newExponentialOption\<close> builds: it keeps
  the list of the dependency's options it was given, so the policy built from two options
  for the multiplier is not the policy built from the second one alone.
\<close>

theorem exponential_policies_differ_counterexample:
  "newExponentialOption [WithMultiplier 2, WithMultiplier 3]
   \<noteq> newExponentialOption [WithMultiplier 3]"
  by (simp add: newExponentialOption_def WithMultiplier_def newOpts_def)

section \<open>No retry limit\<close>







section \<open>The indices of a run count up from 0\<close>

lemma map_count_up_Cons:
  "(i :: go_int) # map (\<lambda>x. i + 1 + of_nat x) [0..<m] = map (\<lambda>x. i + of_nat x) [0..<Suc m]"
proof -
  have "map (\<lambda>x. i + of_nat x) [0..<Suc m]
      = (i + of_nat 0) # map (\<lambda>x. i + of_nat x) (map Suc [0..<m])"
    by (simp only: upt_conv_Cons [of 0 "Suc m"] map_Suc_upt list.map zero_less_Suc)
  then show ?thesis by (simp add: comp_def add.assoc)
qed

lemma Retry_indices_count_up:
  "indices (fst (backoff_Retry fuel w (task yield) b k (i, n)))
   = map (\<lambda>x. i + of_nat x)
       [0..<length (indices (fst (backoff_Retry fuel w (task yield) b k (i, n))))]"
proof (induction fuel arbitrary: b k i n)
  case 0
  show ?case by (simp add: backoff_Retry.simps)
next
  case (Suc fuel)
  obtain d b' where nb: "NextBackOff w k b = (d, b')" by (cases "NextBackOff w k b")
  obtain rest r' where rec:
    "backoff_Retry fuel w (task yield) b' (Suc k) (i + 1, Suc n) = (rest, r')"
    by (cases "backoff_Retry fuel w (task yield) b' (Suc k) (i + 1, Suc n)")
  from Suc.IH [of b' "Suc k" "i + 1" "Suc n"] rec
  have ih: "indices rest = map (\<lambda>x. i + 1 + of_nat x) [0..<length (indices rest)]" by simp
  have "i # indices rest = map (\<lambda>x. i + of_nat x) [0..<Suc (length (indices rest))]"
    using map_count_up_Cons [of i "length (indices rest)"] ih by simp
  moreover have "[i] = map (\<lambda>x. i + of_nat x) [0..<Suc 0]" by simp
  ultimately show ?case using nb rec
    by (simp add: backoff_Retry.simps del: upt_Suc)
qed

lemma sint_word_of_nat:
  assumes "j < 2 ^ 63"
  shows "sint (word_of_nat j :: go_int) = int j"
proof -
  from assms have "int j < 2 ^ 63"
    by (metis of_nat_less_iff of_nat_numeral of_nat_power)
  then have "signed_take_bit 63 (int j) = int j"
    by (intro signed_take_bit_int_eq_self) simp_all
  then show ?thesis by (simp add: signed_of_nat)
qed

lemma sint_count_up:
  assumes "k \<le> 2 ^ 63"
  shows "map sint (map of_nat [0..<k] :: go_int list) = map int [0..<k]"
proof -
  have "sint (word_of_nat x :: go_int) = int x" if "x \<in> set [0..<k]" for x
    using that assms by (intro sint_word_of_nat) auto
  then show ?thesis by (simp only: map_map comp_def cong: map_cong)
qed

section \<open>Early termination by the consumer\<close>

lemma Retry_refused_yield_is_last:
  assumes "backoff_Retry fuel w (task yield) b k (i, n) = (evs, r)"
    and "j < length (indices evs)"
    and "\<not> yield (n + j) (indices evs ! j)"
  shows "r = Returned None \<and> evs \<noteq> [] \<and> last evs = Yielded (indices evs ! j)
         \<and> Suc j = length (indices evs)"
  using assms
proof (induction fuel arbitrary: b k i n evs r j)
  case 0
  then show ?case by (simp add: backoff_Retry.simps)
next
  case (Suc fuel)
  show ?case
  proof (cases "yield n i")
    case False
    with Suc.prems(1) have "evs = [Yielded i]" and "r = Returned None"
      by (auto simp add: backoff_Retry.simps)
    with Suc.prems(2) show ?thesis by simp
  next
    case accepted: True
    obtain d b' where nb: "NextBackOff w k b = (d, b')" by (cases "NextBackOff w k b")
    show ?thesis
    proof (cases "d = backoff_Stop \<or> getContext b (DuringWait k)")
      case True
      with Suc.prems accepted nb have "indices evs = [i]"
        by (auto simp add: backoff_Retry.simps split: if_splits)
      with Suc.prems(2,3) accepted show ?thesis by simp
    next
      case False
      obtain rest r' where rec:
        "backoff_Retry fuel w (task yield) b' (Suc k) (i + 1, Suc n) = (rest, r')"
        by (cases "backoff_Retry fuel w (task yield) b' (Suc k) (i + 1, Suc n)")
      with Suc.prems(1) accepted nb False
      have evs: "evs = Yielded i # Asked d # Slept d # rest" and r: "r = r'"
        by (simp_all add: backoff_Retry.simps)
      from Suc.prems(2,3) accepted evs obtain j' where j: "j = Suc j'"
        by (cases j) simp_all
      from Suc.prems(2,3) evs j have "j' < length (indices rest)"
        and "\<not> yield (Suc n + j') (indices rest ! j')" by simp_all
      from Suc.IH [OF rec this]
      have ih: "r' = Returned None" "rest \<noteq> []" "last rest = Yielded (indices rest ! j')"
        "Suc j' = length (indices rest)" by simp_all
      have same: "indices evs ! j = indices rest ! j'"
        and len: "length (indices evs) = Suc (length (indices rest))"
        by (simp_all add: evs j)
      have "last evs = last rest" using ih(2) by (simp add: evs)
      with ih r same len j show ?thesis by (simp add: evs)
    qed
  qed
qed

text \<open>
  Claim C7. In attempt-index mode, when the consumer answers the index \<open>j\<close> it is handed
  (its \<open>j\<close>-th element, counting from 0) with "no more", the iteration ends at once: handing
  over index \<open>j\<close> is the last thing that happens in the run, so the strategy's next-interval
  operation is not called again and nothing is waited for, and no further index is handed
  over. This holds for every strategy, with or without a cancellation signal.
\<close>

theorem early_termination_ends_at_once:
  assumes "newBackOff fn ctx fuel w yield = (evs, e)"
    and "j < length (indices evs)"
    and "\<not> yield j (of_nat j)"
  shows "e = Ended \<and> evs \<noteq> [] \<and> last evs = Yielded (of_nat j)
         \<and> length (indices evs) = Suc j"
proof -
  let ?b = "case ctx of None \<Rightarrow> fn w | Some c \<Rightarrow> backoff_WithContext (fn w) c"
  let ?r = "snd (backoff_Retry fuel w (task yield) ?b 0 (0, 0))"
  from assms(1) have evs: "fst (backoff_Retry fuel w (task yield) ?b 0 (0, 0)) = evs"
    and e: "e = (case ?r of Returned err \<Rightarrow> Ended | OutOfFuel \<Rightarrow> Unfinished)"
    by (simp_all add: newBackOff_unfold)
  then have run: "backoff_Retry fuel w (task yield) ?b 0 (0, 0) = (evs, ?r)"
    by (metis prod.collapse)
  from Retry_indices_count_up [of fuel w yield ?b 0 0 0] evs
  have "indices evs = map of_nat [0..<length (indices evs)]" by simp
  then have "indices evs ! j = map of_nat [0..<length (indices evs)] ! j" by simp
  with assms(2) have jth: "indices evs ! j = of_nat j" by simp
  from Retry_refused_yield_is_last [OF run assms(2)] assms(3) jth
  have "?r = Returned None \<and> evs \<noteq> [] \<and> last evs = Yielded (of_nat j)
         \<and> Suc j = length (indices evs)" by simp
  with e show ?thesis by simp
qed

lemma refusing_run:
  "NewConstant 7 [] None 10 idleWorld (\<lambda>n i. i \<noteq> 2)
   = ([Yielded 0, Asked 7, Slept 7, Yielded 1, Asked 7, Slept 7, Yielded 2], Ended)"
  by (simp add: NewConstant_def newBackOff_unfold newConstantOption_def constantOption_New_def
      backoff_NewConstantBackOff_def backoff_Retry.simps numeral_nat backoff_Stop_def Background_def)

theorem early_termination_ends_at_once_witness:
  "snd (NewConstant 7 [] None 10 idleWorld (\<lambda>n i. i \<noteq> 2)) = Ended
   \<and> last (fst (NewConstant 7 [] None 10 idleWorld (\<lambda>n i. i \<noteq> 2))) = Yielded 2
   \<and> length (indices (fst (NewConstant 7 [] None 10 idleWorld (\<lambda>n i. i \<noteq> 2)))) = 3"
  using early_termination_ends_at_once
    [of "\<lambda>w. constantOption_New (newConstantOption 7 [])" None 10 idleWorld "\<lambda>n i. i \<noteq> 2"
        "[Yielded 0, Asked 7, Slept 7, Yielded 1, Asked 7, Slept 7, Yielded 2]" Ended 2]
    refusing_run
  by (simp add: NewConstant_def)

section \<open>Cancellation during a wait\<close>

lemma getContext_WithContext:
  "getContext (backoff_WithContext b c) = c"
  by (cases b) simp_all

lemma getContext_NextBackOff:
  "NextBackOff w k b = (d, b') \<Longrightarrow> getContext b' = getContext b"
  by (cases b) (auto split: prod.splits if_splits)

lemma Retry_cancelled_in_wait:
  assumes "backoff_Retry fuel w (task yield) b k (i, n) = (evs, r)"
    and "getContext b (DuringWait j)"
    and "k \<le> j"
  shows "length (indices evs) \<le> Suc (j - k)
         \<and> (j - k < waits evs \<longrightarrow>
              length (indices evs) = Suc (j - k) \<and> r = Returned (Some ctxErr)
              \<and> (\<exists>d. last evs = Interrupted d))"
  using assms
proof (induction fuel arbitrary: b k i n evs r)
  case 0
  then show ?case by (simp add: backoff_Retry.simps)
next
  case (Suc fuel)
  obtain d b' where nb: "NextBackOff w k b = (d, b')" by (cases "NextBackOff w k b")
  show ?case
  proof (cases "\<not> yield n i \<or> d = backoff_Stop")
    case True
    with Suc.prems(1) nb have "indices evs = [i]" and "waits evs = 0"
      by (auto simp add: backoff_Retry.simps split: if_splits)
    then show ?thesis by simp
  next
    case go: False
    show ?thesis
    proof (cases "getContext b (DuringWait k)")
      case True
      with Suc.prems(1) nb go have "evs = [Yielded i, Asked d, Interrupted d]"
        and "r = Returned (Some ctxErr)"
        by (auto simp add: backoff_Retry.simps)
      then show ?thesis by auto
    next
      case False
      with Suc.prems(2,3) have less: "k < j" by (cases "k = j") auto
      obtain rest r' where rec:
        "backoff_Retry fuel w (task yield) b' (Suc k) (i + 1, Suc n) = (rest, r')"
        by (cases "backoff_Retry fuel w (task yield) b' (Suc k) (i + 1, Suc n)")
      with Suc.prems(1) nb go False
      have evs: "evs = Yielded i # Asked d # Slept d # rest" and r: "r = r'"
        by (simp_all add: backoff_Retry.simps)
      from Suc.prems(2) getContext_NextBackOff [OF nb]
      have "getContext b' (DuringWait j)" by simp
      from Suc.IH [OF rec this] less
      have ih: "length (indices rest) \<le> Suc (j - Suc k)"
        "j - Suc k < waits rest \<longrightarrow>
           length (indices rest) = Suc (j - Suc k) \<and> r' = Returned (Some ctxErr)
           \<and> (\<exists>d. last rest = Interrupted d)"
        by simp_all
      from less have step: "j - k = Suc (j - Suc k)" by simp
      have "length (indices evs) \<le> Suc (j - k)"
        using ih(1) by (simp add: evs step)
      moreover have "length (indices evs) = Suc (j - k) \<and> r = Returned (Some ctxErr)
              \<and> (\<exists>d. last evs = Interrupted d)" if "j - k < waits evs"
      proof -
        from that have "j - Suc k < waits rest" by (simp add: evs step)
        with ih(2) have *: "length (indices rest) = Suc (j - Suc k)" "r' = Returned (Some ctxErr)"
          "\<exists>d. last rest = Interrupted d" by simp_all
        from *(1) have "rest \<noteq> []" by auto
        with * show ?thesis by (simp add: evs r step)
      qed
      ultimately show ?thesis by blast
    qed
  qed
qed

text \<open>
  Claim C8. In attempt-index mode with a cancellation signal, let the signal fire during
  the wait that comes before index \<open>k\<close> (the \<open>k\<close>-th wait of the run, \<open>k > 0\<close>). Then the
  consumer is never handed index \<open>k\<close> or a later one: it is handed at most \<open>k\<close> indices,
  and they count up from 0. When the run gets as far as that wait (it has begun \<open>k\<close>
  waits), the consumer has been handed exactly the indices \<open>0, ..., k - 1\<close>, the cut wait
  is the last thing that happens and the sequence has ended. An index is a 64-bit
  \<^verbatim>\<open>int\<close>: the \<open>k\<close> values read as the numbers 0 to \<open>k - 1\<close> for every \<open>k\<close> up to \<open>2^63\<close>.
\<close>

theorem cancelled_wait_yields_nothing_more:
  assumes "newBackOff fn (Some c) fuel w yield = (evs, e)"
    and "0 < k"
    and "c (DuringWait (k - 1))"
  shows "length (indices evs) \<le> k
         \<and> indices evs = map of_nat [0..<length (indices evs)]
         \<and> (k \<le> waits evs \<longrightarrow>
              indices evs = map of_nat [0..<k] \<and> e = Ended \<and> (\<exists>d. last evs = Interrupted d)
              \<and> (k \<le> 2 ^ 63 \<longrightarrow> map sint (indices evs) = map int [0..<k]))"
proof -
  let ?b = "backoff_WithContext (fn w) c"
  let ?r = "snd (backoff_Retry fuel w (task yield) ?b 0 (0, 0))"
  from assms(1) have evs: "fst (backoff_Retry fuel w (task yield) ?b 0 (0, 0)) = evs"
    and e: "e = (case ?r of Returned err \<Rightarrow> Ended | OutOfFuel \<Rightarrow> Unfinished)"
    by (simp_all add: newBackOff_unfold)
  then have run: "backoff_Retry fuel w (task yield) ?b 0 (0, 0) = (evs, ?r)"
    by (metis prod.collapse)
  have fired: "getContext ?b (DuringWait (k - 1))"
    using assms(3) by (simp add: getContext_WithContext)
  from Retry_cancelled_in_wait [OF run fired] assms(2)
  have bound: "length (indices evs) \<le> k"
    and reached: "k \<le> waits evs \<longrightarrow>
        length (indices evs) = k \<and> ?r = Returned (Some ctxErr) \<and> (\<exists>d. last evs = Interrupted d)"
    by auto
  from Retry_indices_count_up [of fuel w yield ?b 0 0 0] evs
  have count: "indices evs = map of_nat [0..<length (indices evs)]" by simp
  have signed: "map sint (indices evs) = map int [0..<k]"
    if "length (indices evs) = k" "k \<le> 2 ^ 63"
    using count that sint_count_up [of k] by simp
  from bound count reached e signed show ?thesis by auto
qed

lemma cancelled_run:
  "NewConstant 7 [] (Some (\<lambda>m. m = DuringWait 2)) 10 idleWorld keepGoing
   = ([Yielded 0, Asked 7, Slept 7, Yielded 1, Asked 7, Slept 7, Yielded 2, Asked 7,
       Interrupted 7], Ended)"
  by (simp add: NewConstant_def newBackOff_unfold newConstantOption_def constantOption_New_def
      backoff_NewConstantBackOff_def backoff_Retry.simps numeral_nat backoff_Stop_def
      keepGoing_def)

theorem cancelled_wait_yields_nothing_more_witness:
  "indices (fst (NewConstant 7 [] (Some (\<lambda>m. m = DuringWait 2)) 10 idleWorld keepGoing))
     = [0, 1, 2]
   \<and> snd (NewConstant 7 [] (Some (\<lambda>m. m = DuringWait 2)) 10 idleWorld keepGoing) = Ended"
  using cancelled_wait_yields_nothing_more
    [of "\<lambda>w. constantOption_New (newConstantOption 7 [])" "\<lambda>m. m = DuringWait 2" 10 idleWorld
        keepGoing
        "[Yielded 0, Asked 7, Slept 7, Yielded 1, Asked 7, Slept 7, Yielded 2, Asked 7,
          Interrupted 7]" Ended 3]
    cancelled_run
  by (simp add: NewConstant_def)

section \<open>The no-delay strategy with a retry limit\<close>

lemma unat_increment:
  assumes "unat (t :: uint64) < unat (N :: uint64)"
  shows "unat (t + 1) = Suc (unat t)"
proof -
  have "unat N < 2 ^ 64" using unsigned_less [of N] by simp
  with assms have "unat t + 1 < 2 ^ 64" by simp
  then show ?thesis by (simp add: unat_word_ariths)
qed

lemma Retry_silent_context:
  assumes "\<And>m. \<not> c m" and "\<And>m. \<not> getContext b m"
  shows "backoff_Retry fuel w operation (backOffContext b c) k s
         = backoff_Retry fuel w operation b k s"
  using assms(2)
proof (induction fuel arbitrary: b k s)
  case 0
  show ?case by (simp add: backoff_Retry.simps)
next
  case (Suc fuel)
  obtain d b' where nb: "NextBackOff w k b = (d, b')" by (cases "NextBackOff w k b")
  from getContext_NextBackOff [OF nb] Suc.prems have "\<And>m. \<not> getContext b' m" by simp
  from Suc.IH [OF this] nb assms(1) Suc.prems show ?case
    by (simp add: backoff_Retry.simps split: prod.splits option.splits)
qed

lemma Retry_zero_limited:
  assumes "unat t \<le> unat N" and "unat N - unat t < fuel"
  shows "length (indices (fst (backoff_Retry fuel w (task keepGoing)
                                 (backOffTries ZeroBackOff N t) k (i, n))))
           = Suc (unat N - unat t)
         \<and> waited (fst (backoff_Retry fuel w (task keepGoing)
                           (backOffTries ZeroBackOff N t) k (i, n))) = 0
         \<and> snd (backoff_Retry fuel w (task keepGoing) (backOffTries ZeroBackOff N t) k (i, n))
           = Returned (Some errContinue)"
  using assms
proof (induction fuel arbitrary: t k i n)
  case 0
  then show ?case by simp
next
  case (Suc fuel)
  show ?case
  proof (cases "N \<le> t")
    case True
    then have "unat N \<le> unat t" by (simp add: word_le_nat_alt)
    with True show ?thesis
      by (simp add: backoff_Retry.simps keepGoing_def Background_def)
  next
    case False
    then have less: "unat t < unat N" by (simp add: word_le_nat_alt)
    then have succ: "unat (t + 1) = Suc (unat t)" by (rule unat_increment)
    with less Suc.prems have "unat (t + 1) \<le> unat N" and "unat N - unat (t + 1) < fuel"
      by simp_all
    from Suc.IH [OF this, of "Suc k" "i + 1" "Suc n"] False less succ show ?thesis
      by (auto simp add: backoff_Retry.simps keepGoing_def Background_def backoff_Stop_def
          Suc_diff_Suc split: prod.splits)
  qed
qed

lemma no_delay_run:
  assumes "0 < N" and "\<forall>c m. ctx = Some c \<longrightarrow> \<not> c m" and "unat N < fuel"
  shows "indices (fst (NewConstant 0 [WithMaxRetries N] ctx fuel w keepGoing))
           = map of_nat [0..<Suc (unat N)]
         \<and> snd (NewConstant 0 [WithMaxRetries N] ctx fuel w keepGoing) = Ended
         \<and> waited (fst (NewConstant 0 [WithMaxRetries N] ctx fuel w keepGoing)) = 0"
proof -
  let ?b = "backOffTries ZeroBackOff N 0"
  from assms(1) have strategy:
    "constantOption_New (newConstantOption 0 [WithMaxRetries N]) = ?b"
    by (simp add: constantOption_New_def newConstantOption_def WithMaxRetries_def
        backoff_WithMaxRetries_def)
  have same: "backoff_Retry fuel w (task keepGoing)
      (case ctx of None \<Rightarrow> ?b | Some c \<Rightarrow> backoff_WithContext ?b c) 0 (0, 0)
    = backoff_Retry fuel w (task keepGoing) ?b 0 (0, 0)"
  proof (cases ctx)
    case None
    then show ?thesis by simp
  next
    case (Some c)
    with assms(2) have "\<And>m. \<not> c m" by simp
    then show ?thesis using Some
      by (simp add: Retry_silent_context Background_def)
  qed
  from assms(3) have "unat (0 :: uint64) \<le> unat N" and "unat N - unat (0 :: uint64) < fuel"
    by simp_all
  from Retry_zero_limited [OF this, of w 0 0 0]
  have len: "length (indices (fst (backoff_Retry fuel w (task keepGoing) ?b 0 (0, 0))))
      = Suc (unat N)"
    and rest: "waited (fst (backoff_Retry fuel w (task keepGoing) ?b 0 (0, 0))) = 0"
      "snd (backoff_Retry fuel w (task keepGoing) ?b 0 (0, 0)) = Returned (Some errContinue)"
    by simp_all
  from Retry_indices_count_up [of fuel w keepGoing ?b 0 0 0] len
  have "indices (fst (backoff_Retry fuel w (task keepGoing) ?b 0 (0, 0)))
      = map of_nat [0..<Suc (unat N)]"
    by (simp del: upt_Suc)
  with rest show ?thesis
    by (simp add: NewConstant_def newBackOff_unfold strategy same del: upt_Suc)
qed

text \<open>
  Claim C4, as amended. For every \<open>N\<close> with \<open>0 < N < 2^63\<close>, the attempt-index sequence of
  \<^verbatim>\<open>NewConstant(0, WithMaxRetries(N))\<close>, run with a consumer that never breaks and a
  cancellation signal that is absent or never fires, hands over exactly the \<open>N + 1\<close> indices
  \<open>0, 1, ..., N\<close> in order and then ends, and the waits add up to zero. More than \<open>N\<close>
  units of fuel are enough. The bound on \<open>N\<close> is the largest value of the index, a 64-bit
  \<^verbatim>\<open>int\<close>.
\<close>

theorem no_delay_yields_0_to_N:
  assumes "0 < N" and "unat N < 2 ^ 63"
    and "\<forall>c m. ctx = Some c \<longrightarrow> \<not> c m" and "unat N < fuel"
  shows "map sint (indices (fst (NewConstant 0 [WithMaxRetries N] ctx fuel w keepGoing)))
           = map int [0..<Suc (unat N)]
         \<and> snd (NewConstant 0 [WithMaxRetries N] ctx fuel w keepGoing) = Ended
         \<and> waited (fst (NewConstant 0 [WithMaxRetries N] ctx fuel w keepGoing)) = 0"
proof -
  from assms(2) have "Suc (unat N) \<le> 2 ^ 63" by simp
  from sint_count_up [OF this] no_delay_run [OF assms(1,3,4), of w] show ?thesis
    by (simp del: upt_Suc)
qed

theorem no_delay_yields_0_to_N_witness:
  "map sint (indices (fst (NewConstant 0 [WithMaxRetries 4] None 5 idleWorld keepGoing)))
     = [0, 1, 2, 3, 4]
   \<and> snd (NewConstant 0 [WithMaxRetries 4] None 5 idleWorld keepGoing) = Ended
   \<and> waited (fst (NewConstant 0 [WithMaxRetries 4] None 5 idleWorld keepGoing)) = 0"
proof -
  have "[0..<Suc (unat (4 :: uint64))] = [0, 1, 2, 3, 4]"
    by (simp add: upt_rec)
  with no_delay_yields_0_to_N [of 4 None 5 idleWorld] show ?thesis
    by simp
qed

text \<open>
  Claim C4 as stated fails at \<open>N = 2^63\<close>: the run ends after \<open>N + 1\<close> indices, but the
  index wraps around after \<open>2^63 - 1\<close>, so the last index handed over is \<open>- 2^63\<close> and not
  \<open>N\<close>.
\<close>

theorem no_delay_index_wraps_counterexample:
  "snd (NewConstant 0 [WithMaxRetries 9223372036854775808] None
          (Suc 9223372036854775808) idleWorld keepGoing) = Ended
   \<and> map sint (indices (fst (NewConstant 0 [WithMaxRetries 9223372036854775808] None
          (Suc 9223372036854775808) idleWorld keepGoing)))
       \<noteq> map int [0..<Suc 9223372036854775808]
   \<and> sint (last (indices (fst (NewConstant 0 [WithMaxRetries 9223372036854775808] None
          (Suc 9223372036854775808) idleWorld keepGoing)))) = - 9223372036854775808"
proof -
  let ?N = "9223372036854775808 :: uint64"
  let ?run = "NewConstant 0 [WithMaxRetries ?N] None (Suc 9223372036854775808) idleWorld keepGoing"
  have n: "unat ?N = 9223372036854775808" by simp
  have "0 < ?N" by simp
  moreover have "\<forall>c m. (None :: Context option) = Some c \<longrightarrow> \<not> c m" by simp
  moreover have "unat ?N < Suc 9223372036854775808" by (simp only: n lessI)
  ultimately have run: "indices (fst ?run) = map of_nat [0..<Suc (unat ?N)]" "snd ?run = Ended"
    using no_delay_run [of ?N None "Suc 9223372036854775808" idleWorld] by blast+
  have "last (indices (fst ?run)) = (of_nat (unat ?N) :: go_int)"
    unfolding run(1) by (simp add: last_map del: upt_Suc unsigned_numeral)
  then have lastval: "sint (last (indices (fst ?run))) = - 9223372036854775808"
    by simp
  have "last (map sint (indices (fst ?run))) = - 9223372036854775808"
    using lastval run(1) by (simp add: last_map del: upt_Suc unsigned_numeral)
  moreover have "last (map int [0..<Suc 9223372036854775808]) = 9223372036854775808"
    by (simp add: last_map)
  ultimately have "map sint (indices (fst ?run)) \<noteq> map int [0..<Suc 9223372036854775808]"
    by (metis neg_numeral_neq_numeral)
  with run(2) lastval show ?thesis by blast
qed

section \<open>Construction fails only on a nil option\<close>
















end
